theory Spec2Isabelle
  imports Main "HOL-Library.AList"
begin

section \<open>Strings and the regular expressions of refs.js\<close>

text \<open>
  JavaScript strings are modelled as \<open>string\<close>. Each regular expression of the source is
  written out as the recursive function that decides it; the pattern is quoted beside it.
\<close>

type_synonym hash = string

text \<open>The character class \<^verbatim>\<open>[A-Za-z-]\<close>.\<close>

definition name_char :: "char \<Rightarrow> bool" where
  "name_char c =
     (let n = (of_char c :: nat)
      in (65 \<le> n \<and> n \<le> 90) \<or> (97 \<le> n \<and> n \<le> 122) \<or> n = 45)"

text \<open>\<^verbatim>\<open>[A-Za-z-]+$\<close>: one or more class characters, up to the end of the input.\<close>

definition branch_name :: "string \<Rightarrow> bool" where
  "branch_name s = (s \<noteq> [] \<and> list_all name_char s)"

text \<open>A literal at the current position: the rest of the input behind it.\<close>

fun strip_prefix :: "string \<Rightarrow> string \<Rightarrow> string option" where
  "strip_prefix [] s = Some s"
| "strip_prefix (p # ps) [] = None"
| "strip_prefix (p # ps) (c # cs) = (if p = c then strip_prefix ps cs else None)"

text \<open>\<^verbatim>\<open>s.match(pat) !== null\<close> for a literal \<open>pat\<close>: it occurs somewhere in \<open>s\<close>.\<close>

fun contains :: "string \<Rightarrow> string \<Rightarrow> bool" where
  "contains pat [] = (pat = [])"
| "contains pat (c # cs) = (strip_prefix pat (c # cs) \<noteq> None \<or> contains pat cs)"

text \<open>
  The dot of a JavaScript pattern matches every character but a line terminator
  (line feed and carriage return; U+2028 and U+2029 lie outside 8-bit characters).
\<close>

definition line_terminator :: "char \<Rightarrow> bool" where
  "line_terminator c = (of_char c = (10 :: nat) \<or> of_char c = (13 :: nat))"

text \<open>
  \<^verbatim>\<open>s.match("pat(.+)")\<close> for a literal \<open>pat\<close>: group 1 of the leftmost match, where
  the greedy \<^verbatim>\<open>.+\<close> takes the longest run of characters that are no line terminators.
  \<open>None\<close> is JavaScript's \<^verbatim>\<open>null\<close>.
\<close>

fun capture_after :: "string \<Rightarrow> string \<Rightarrow> string option" where
  "capture_after pat [] = None"
| "capture_after pat (c # cs) =
     (case strip_prefix pat (c # cs) of
        Some rest \<Rightarrow>
          (if takeWhile (\<lambda>x. \<not> line_terminator x) rest \<noteq> []
           then Some (takeWhile (\<lambda>x. \<not> line_terminator x) rest)
           else capture_after pat cs)
      | None \<Rightarrow> capture_after pat cs)"

text \<open>\<^verbatim>\<open>l.match("^.+" + pat) !== null\<close> for a literal \<open>pat\<close>.\<close>

fun dotplus_then :: "string \<Rightarrow> string \<Rightarrow> bool" where
  "dotplus_then pat [] = False"
| "dotplus_then pat (c # cs) =
     (\<not> line_terminator c \<and> (strip_prefix pat cs \<noteq> None \<or> dotplus_then pat cs))"

text \<open>
  \<^verbatim>\<open>l.match("^([^ ]+) ")\<close>: group 1, the characters before the first space when there
  are some and the space is there.
\<close>

definition first_token :: "string \<Rightarrow> string option" where
  "first_token l =
     (let t = takeWhile (\<lambda>c. c \<noteq> CHR '' '') l
      in if t \<noteq> [] \<and> length t < length l then Some t else None)"


text \<open>\<^verbatim>\<open>str.split(d)\<close> at a character \<open>d\<close>; lines are split at the line feed.\<close>

fun split_at :: "char \<Rightarrow> string \<Rightarrow> string list" where
  "split_at d [] = [[]]"
| "split_at d (c # cs) =
     (if c = d then [] # split_at d cs
      else (case split_at d cs of l # ls \<Rightarrow> (c # l) # ls | [] \<Rightarrow> [[c]]))"

definition split_lines :: "string \<Rightarrow> string list" where
  "split_lines s = split_at (CHR 0x0A) s"

text \<open>\<^verbatim>\<open>xs.join(d)\<close>.\<close>

fun join :: "string \<Rightarrow> string list \<Rightarrow> string" where
  "join d [] = []"
| "join d [x] = x"
| "join d (x # y # ys) = x @ d @ join d (y # ys)"

text \<open>
  A value that may be \<^verbatim>\<open>undefined\<close>, spliced into a string: JavaScript writes the text
  \<^verbatim>\<open>undefined\<close> for it.
\<close>

definition js_str :: "string option \<Rightarrow> string" where
  "js_str v = (case v of None \<Rightarrow> ''undefined'' | Some s \<Rightarrow> s)"

text \<open>A number spliced into a string: its decimal digits.\<close>

fun digits :: "nat \<Rightarrow> string" where
  "digits n =
     (if n < 10 then [char_of (48 + n)]
      else digits (n div 10) @ [char_of (48 + n mod 10)])"

section \<open>Data model\<close>

text \<open>
  Errors are values. \<open>Error msg\<close> is \<^verbatim>\<open>throw new Error(msg)\<close>; \<open>TypeError\<close> is what
  JavaScript raises when a property of \<^verbatim>\<open>null\<close> or \<^verbatim>\<open>undefined\<close> is read (as
  \<^verbatim>\<open>x.match(p)[1]\<close> does when nothing matches). \<open>NotInRepo\<close> and \<open>BareDisallowed\<close> are
  raised by \<^verbatim>\<open>files.assertInRepo\<close> and \<^verbatim>\<open>config.assertNotBare\<close>, and \<open>NoSuchFile\<close> by
  \<^verbatim>\<open>fs.unlinkSync\<close> on a missing file.
\<close>

datatype error = Error string | TypeError | NotInRepo | BareDisallowed | NoSuchFile

text \<open>
  Modelled from the spec: the object variants of the missing module \<^verbatim>\<open>objects\<close>
  (section 3: blob, tree, commit). A tree entry is a name with its kind and hash; a
  commit holds its tree hash, its parent hashes and its message.
\<close>

datatype kind = KBlob | KTree

datatype object =
    Blob string
  | Tree "(string \<times> kind \<times> hash) list"
  | Commit hash "hash list" string

datatype otype = TBlob | TTree | TCommit

text \<open>An entry of the working copy: a file with its content, or a directory.\<close>

datatype wc_entry = File string | Directory

text \<open>
  What a write did, kept with the repository as a journal (oldest first). It is
  bookkeeping for the ordering properties: no operation reads it.
\<close>

datatype event =
    ObjectWritten hash
  | FileWritten string string
  | FileRemoved string
  | IndexWritten

text \<open>
  A repository. \<open>version_files\<close> are the text files of the version directory (HEAD,
  FETCH_HEAD, MERGE_HEAD, MERGE_MSG and the files under refs/), by their path inside it;
  \<open>object_store\<close> is the objects directory, by file name; \<open>is_bare\<close> and
  \<open>remote_urls\<close> are the two settings of the config file; \<open>index_entries\<close> maps (path,
  stage) to a blob hash; \<open>working_copy\<close> maps a path from the repository root to what is
  on disk there. Each journal entry is a write with the version files and the object
  hashes right after it.
\<close>

record repo =
  version_files :: "(string \<times> string) list"
  object_store :: "(hash \<times> object) list"
  is_bare :: bool
  remote_urls :: "(string \<times> string) list"
  index_entries :: "((string \<times> nat) \<times> hash) list"
  working_copy :: "(string \<times> wc_entry) list"
  journal :: "(event \<times> (string \<times> string) list \<times> hash list) list"

definition logged :: "event \<Rightarrow> repo \<Rightarrow> repo" where
  "logged e r =
     r\<lparr>journal := journal r @ [(e, version_files r, map fst (object_store r))]\<rparr>"

section \<open>The missing modules files and objects\<close>

text \<open>
  Modelled from the spec: \<^verbatim>\<open>files.read\<close> and \<^verbatim>\<open>files.write\<close> of a file of the version
  directory (section 4.2, read and write; section 5: every ref update is a full-file
  rewrite). Reading a file that is not there gives \<^verbatim>\<open>undefined\<close>, here \<open>None\<close>.
\<close>

definition files_read :: "repo \<Rightarrow> string \<Rightarrow> string option" where
  "files_read r path = map_of (version_files r) path"

definition files_write :: "repo \<Rightarrow> string \<Rightarrow> string \<Rightarrow> repo" where
  "files_write r path content =
     logged (FileWritten path content)
       (r\<lparr>version_files := AList.update path content (version_files r)\<rparr>)"

text \<open>\<^verbatim>\<open>fs.unlinkSync\<close> of a file of the version directory.\<close>

definition files_unlink :: "repo \<Rightarrow> string \<Rightarrow> (error + unit) \<times> repo" where
  "files_unlink r path =
     (if map_of (version_files r) path = None then (Inl NoSuchFile, r)
      else (Inr (),
            logged (FileRemoved path)
              (r\<lparr>version_files := AList.delete path (version_files r)\<rparr>)))"

text \<open>
  Modelled from the spec: the object store of the missing module \<^verbatim>\<open>objects\<close>
  (section 4.1). \<open>H\<close> is the content hash, a fixed choice the model takes as a
  parameter; \<open>objects_write\<close> stores the object under its hash and returns the hash.
\<close>

definition objects_exists :: "repo \<Rightarrow> hash \<Rightarrow> bool" where
  "objects_exists r h = (map_of (object_store r) h \<noteq> None)"

definition objects_read :: "repo \<Rightarrow> hash \<Rightarrow> object option" where
  "objects_read r h = map_of (object_store r) h"

fun objects_type :: "object \<Rightarrow> otype" where
  "objects_type (Blob _) = TBlob"
| "objects_type (Tree _) = TTree"
| "objects_type (Commit _ _ _) = TCommit"

definition objects_write :: "(object \<Rightarrow> hash) \<Rightarrow> repo \<Rightarrow> object \<Rightarrow> hash \<times> repo" where
  "objects_write H r obj =
     (H obj,
      logged (ObjectWritten (H obj))
        (r\<lparr>object_store := AList.update (H obj) obj (object_store r)\<rparr>))"

definition objects_allObjects :: "repo \<Rightarrow> object list" where
  "objects_allObjects r = map snd (object_store r)"

section \<open>refs.js\<close>

text \<open>
  \<open>isRef\<close>: the two anchored patterns \<^verbatim>\<open>^refs/heads/[A-Za-z-]+$\<close> and
  \<^verbatim>\<open>^refs/remotes/[A-Za-z-]+/[A-Za-z-]+$\<close>, and the three names of the array. The test
  \<^verbatim>\<open>ref !== undefined\<close> holds of every string.
\<close>

definition isRef :: "string \<Rightarrow> bool" where
  "isRef ref =
     ((case strip_prefix ''refs/heads/'' ref of
         Some n \<Rightarrow> branch_name n
       | None \<Rightarrow> False) \<or>
      (case strip_prefix ''refs/remotes/'' ref of
         Some rest \<Rightarrow>
           takeWhile name_char rest \<noteq> [] \<and>
           (case dropWhile name_char rest of
              [] \<Rightarrow> False
            | c # n \<Rightarrow> c = CHR ''/'' \<and> branch_name n)
       | None \<Rightarrow> False) \<or>
      ref \<in> set [''HEAD'', ''FETCH_HEAD'', ''MERGE_HEAD''])"

definition isHeadDetached :: "repo \<Rightarrow> error + bool" where
  "isHeadDetached r =
     (case files_read r ''HEAD'' of
        None \<Rightarrow> Inl TypeError
      | Some content \<Rightarrow> Inr (\<not> contains ''refs'' content))"

definition toLocalRef :: "string \<Rightarrow> string" where
  "toLocalRef name = ''refs/heads/'' @ name"

definition toRemoteRef :: "string \<Rightarrow> string \<Rightarrow> string" where
  "toRemoteRef remote name = ''refs/remotes/'' @ remote @ ''/'' @ name"

text \<open>
  \<open>terminalRef\<close>. JavaScript's \<^verbatim>\<open>&&\<close> reads HEAD only when \<open>ref\<close> is HEAD. Group 1
  of \<^verbatim>\<open>ref: (refs/heads/.+)\<close> is \<^verbatim>\<open>refs/heads/\<close> followed by what the dot run takes.
\<close>

definition terminalRef :: "repo \<Rightarrow> string \<Rightarrow> error + string" where
  "terminalRef r ref =
     (if ref = ''HEAD'' then
        (case isHeadDetached r of
           Inl e \<Rightarrow> Inl e
         | Inr False \<Rightarrow>
             (case capture_after ''ref: refs/heads/'' (the (files_read r ''HEAD'')) of
                None \<Rightarrow> Inl TypeError
              | Some b \<Rightarrow> Inr (''refs/heads/'' @ b))
         | Inr True \<Rightarrow> Inr ref)
      else if isRef ref then Inr ref
      else Inr (toLocalRef ref))"

definition refs_exists :: "repo \<Rightarrow> string \<Rightarrow> bool" where
  "refs_exists r ref = (isRef ref \<and> files_read r ref \<noteq> None)"

definition headBranchName :: "repo \<Rightarrow> error + string option" where
  "headBranchName r =
     (case isHeadDetached r of
        Inl e \<Rightarrow> Inl e
      | Inr True \<Rightarrow> Inr None
      | Inr False \<Rightarrow>
          (case capture_after ''refs/heads/'' (the (files_read r ''HEAD'')) of
             None \<Rightarrow> Inl TypeError
           | Some b \<Rightarrow> Inr (Some b)))"

text \<open>
  \<open>fetchHeadBranchToMerge\<close>. An undefined branch name is spliced into the pattern as the
  text \<^verbatim>\<open>undefined\<close>. The branch name is matched as a literal, which is what the pattern
  does for every name without a regular-expression metacharacter (all names that
  \<open>isRef\<close> admits). \<^verbatim>\<open>map\<close> runs over every line that passed the filter, so one such
  line without a first token raises before \<^verbatim>\<open>[0]\<close> is taken. \<^verbatim>\<open>util.lines\<close> of the
  missing module \<^verbatim>\<open>util\<close> is the split at line feeds (an empty line never passes the
  filter); on \<^verbatim>\<open>undefined\<close> it raises.
\<close>

definition fetchHeadBranchToMerge :: "repo \<Rightarrow> string option \<Rightarrow> error + hash option" where
  "fetchHeadBranchToMerge r branchName =
     (case files_read r ''FETCH_HEAD'' of
        None \<Rightarrow> Inl TypeError
      | Some content \<Rightarrow>
          (let ls = filter (dotplus_then ('' branch '' @ js_str branchName @ '' of''))
                      (split_lines content);
               hs = map first_token ls
           in if None \<in> set hs then Inl TypeError
              else (case hs of [] \<Rightarrow> Inr None | h # _ \<Rightarrow> Inr h)))"

definition refs_hash :: "repo \<Rightarrow> string \<Rightarrow> error + hash option" where
  "refs_hash r refOrHash =
     (if objects_exists r refOrHash then Inr (Some refOrHash)
      else
        (case terminalRef r refOrHash of
           Inl e \<Rightarrow> Inl e
         | Inr t \<Rightarrow>
             if t = ''FETCH_HEAD'' then
               (case headBranchName r of
                  Inl e \<Rightarrow> Inl e
                | Inr b \<Rightarrow> fetchHeadBranchToMerge r b)
             else if refs_exists r t then Inr (files_read r t)
             else Inr None))"

text \<open>
  \<open>refs.write\<close>. \<^verbatim>\<open>nodePath.normalize\<close> leaves every name that \<open>isRef\<close> admits as it is
  (no empty, \<^verbatim>\<open>.\<close> or \<^verbatim>\<open>..\<close> segment).
\<close>

definition refs_write :: "repo \<Rightarrow> string \<Rightarrow> string \<Rightarrow> repo" where
  "refs_write r ref content = (if isRef ref then files_write r ref content else r)"

definition refs_rm :: "repo \<Rightarrow> string \<Rightarrow> (error + unit) \<times> repo" where
  "refs_rm r ref = (if isRef ref then files_unlink r ref else (Inr (), r))"

section \<open>version.update_ref\<close>

text \<open>The three error messages of \<open>update_ref\<close>.\<close>

definition not_a_valid_SHA1 :: "string \<Rightarrow> string" where
  "not_a_valid_SHA1 refToUpdateTo = refToUpdateTo @ '' not a valid SHA1''"

definition cannot_lock_the_ref :: "string \<Rightarrow> string" where
  "cannot_lock_the_ref refToUpdate = ''cannot lock the ref '' @ refToUpdate"

definition cannot_refer_to_non_commit :: "string \<Rightarrow> hash \<Rightarrow> string" where
  "cannot_refer_to_non_commit branch hash =
     branch @ '' cannot refer to non-commit object '' @ hash @ [CHR 0x0A]"

text \<open>
  \<^verbatim>\<open>files.assertInRepo\<close> holds of every repository value. \<^verbatim>\<open>objects.exists\<close> of
  \<^verbatim>\<open>undefined\<close> is false.
\<close>

definition update_ref :: "repo \<Rightarrow> string \<Rightarrow> string \<Rightarrow> (error + unit) \<times> repo" where
  "update_ref r refToUpdate refToUpdateTo =
     (case refs_hash r refToUpdateTo of
        Inl e \<Rightarrow> (Inl e, r)
      | Inr None \<Rightarrow> (Inl (Error (not_a_valid_SHA1 refToUpdateTo)), r)
      | Inr (Some hash) \<Rightarrow>
          if \<not> objects_exists r hash then
            (Inl (Error (not_a_valid_SHA1 refToUpdateTo)), r)
          else if \<not> isRef refToUpdate then
            (Inl (Error (cannot_lock_the_ref refToUpdate)), r)
          else if map_option objects_type (objects_read r hash) \<noteq> Some TCommit then
            (case terminalRef r refToUpdate of
               Inl e \<Rightarrow> (Inl e, r)
             | Inr branch \<Rightarrow> (Inl (Error (cannot_refer_to_non_commit branch hash)), r))
          else
            (case terminalRef r refToUpdate of
               Inl e \<Rightarrow> (Inl e, r)
             | Inr t \<Rightarrow> (Inr (), refs_write r t hash)))"

section \<open>The missing modules: commit graph, merge tests, config and index\<close>

text \<open>
  Modelled from the spec: the commit graph of the missing module \<^verbatim>\<open>objects\<close>
  (section 4.5). \<open>ancestors\<close> follows parent links; a chain of parents without a
  repetition is no longer than the number of stored objects, which bounds the walk.
  \<open>isAncestor r a b\<close>: \<open>a\<close> appears in the ancestors of \<open>b\<close>. \<open>isUpToDate\<close>: the
  receiver is the giver or the giver is an ancestor of the receiver; also when the giver
  is none.
\<close>

definition parentHashes :: "repo \<Rightarrow> hash \<Rightarrow> hash list" where
  "parentHashes r h = (case objects_read r h of Some (Commit _ ps _) \<Rightarrow> ps | _ \<Rightarrow> [])"

fun ancestors_within :: "nat \<Rightarrow> repo \<Rightarrow> hash \<Rightarrow> hash list" where
  "ancestors_within 0 r h = []"
| "ancestors_within (Suc n) r h =
     parentHashes r h @ concat (map (ancestors_within n r) (parentHashes r h))"

definition ancestors :: "repo \<Rightarrow> hash \<Rightarrow> hash list" where
  "ancestors r h = ancestors_within (length (object_store r)) r h"

definition isAncestor :: "repo \<Rightarrow> hash \<Rightarrow> hash \<Rightarrow> bool" where
  "isAncestor r a b = (a \<in> set (ancestors r b))"

definition isUpToDate :: "repo \<Rightarrow> hash option \<Rightarrow> hash option \<Rightarrow> bool" where
  "isUpToDate r receiver giver =
     (case giver of
        None \<Rightarrow> True
      | Some g \<Rightarrow> receiver = Some g \<or> (case receiver of None \<Rightarrow> False | Some c \<Rightarrow> isAncestor r g c))"

fun objects_treeHash :: "object \<Rightarrow> hash option" where
  "objects_treeHash (Commit t _ _) = Some t"
| "objects_treeHash _ = None"

text \<open>
  Modelled from the spec: \<^verbatim>\<open>objects.writeCommit\<close> (section 4.1, write_commit). An
  undefined message or parent is stored as JavaScript splices it into the commit text.
\<close>

definition objects_writeCommit ::
  "(object \<Rightarrow> hash) \<Rightarrow> repo \<Rightarrow> hash \<Rightarrow> string option \<Rightarrow> hash option list \<Rightarrow> hash \<times> repo" where
  "objects_writeCommit H r treeHash m parents =
     objects_write H r (Commit treeHash (map js_str parents) (js_str m))"

text \<open>
  Modelled from the spec: the tests of the missing module \<^verbatim>\<open>merge\<close> (section 4.6).
  \<open>canFastForward\<close>: the receiver is none or an ancestor of the giver.
  \<open>isAForceFetch\<close>: the old hash is defined and no ancestor of the new one.
  \<open>isMergeInProgress\<close>: MERGE_HEAD is present (section 6: present iff merging).
\<close>

definition canFastForward :: "repo \<Rightarrow> hash option \<Rightarrow> hash \<Rightarrow> bool" where
  "canFastForward r receiver giver =
     (case receiver of None \<Rightarrow> True | Some c \<Rightarrow> isAncestor r c giver)"

definition isAForceFetch :: "repo \<Rightarrow> hash option \<Rightarrow> hash \<Rightarrow> bool" where
  "isAForceFetch r old new =
     (case old of None \<Rightarrow> False | Some c \<Rightarrow> \<not> isAncestor r c new)"

definition isMergeInProgress :: "repo \<Rightarrow> bool" where
  "isMergeInProgress r = (files_read r ''MERGE_HEAD'' \<noteq> None)"

text \<open>
  Modelled from the spec: the missing module \<^verbatim>\<open>index\<close> (sections 3 and 4.3). A path is
  conflicted when one of its stages 1 to 3 is present; the table of contents is the
  stage-0 entries; \<open>index_writeNonConflict\<close> stores the blob, drops every stage of the
  path and writes stage 0; \<open>index_writeRm\<close> drops every stage of the path.
\<close>

definition index_hasFile :: "repo \<Rightarrow> string \<Rightarrow> nat \<Rightarrow> bool" where
  "index_hasFile r path stage = (map_of (index_entries r) (path, stage) \<noteq> None)"

definition index_isFileInConflict :: "repo \<Rightarrow> string \<Rightarrow> bool" where
  "index_isFileInConflict r path =
     (index_hasFile r path 1 \<or> index_hasFile r path 2 \<or> index_hasFile r path 3)"

definition index_conflictedPaths :: "repo \<Rightarrow> string list" where
  "index_conflictedPaths r =
     remdups (map (\<lambda>e. fst (fst e))
       (filter (\<lambda>e. 1 \<le> snd (fst e) \<and> snd (fst e) \<le> 3) (index_entries r)))"

definition index_toc :: "repo \<Rightarrow> (string \<times> hash) list" where
  "index_toc r =
     map (\<lambda>e. (fst (fst e), snd e)) (filter (\<lambda>e. snd (fst e) = 0) (index_entries r))"

definition index_write :: "repo \<Rightarrow> ((string \<times> nat) \<times> hash) list \<Rightarrow> repo" where
  "index_write r idx = logged IndexWritten (r\<lparr>index_entries := idx\<rparr>)"

definition index_writeRm :: "repo \<Rightarrow> string \<Rightarrow> repo" where
  "index_writeRm r path =
     index_write r (filter (\<lambda>e. fst (fst e) \<noteq> path) (index_entries r))"

definition index_writeNonConflict ::
  "(object \<Rightarrow> hash) \<Rightarrow> repo \<Rightarrow> string \<Rightarrow> string \<Rightarrow> repo" where
  "index_writeNonConflict H r path content =
     (case objects_write H r (Blob content) of
        (h, r1) \<Rightarrow>
          index_write r1
            (AList.update (path, 0) h
               (filter (\<lambda>e. fst (fst e) \<noteq> path) (index_entries r1))))"

section \<open>version.update_index\<close>

text \<open>
  The options object: an absent option is falsy. Paths are taken from the repository
  root (section 4.4), so \<^verbatim>\<open>files.pathFromRepoRoot\<close> and \<^verbatim>\<open>files.workingCopyPath\<close> leave
  them as they are. The function returns \<^verbatim>\<open>undefined\<close> when no branch applies.
\<close>

record index_opts =
  opt_add :: bool
  opt_remove :: bool

definition update_index ::
  "(object \<Rightarrow> hash) \<Rightarrow> repo \<Rightarrow> string \<Rightarrow> index_opts \<Rightarrow> (error + string option) \<times> repo" where
  "update_index H r path opts =
     (if is_bare r then (Inl BareDisallowed, r)
      else
        (let onDisk = map_of (working_copy r) path;
             isOnDisk = (onDisk \<noteq> None);
             isInIndex = index_hasFile r path 0
         in if isOnDisk \<and> onDisk = Some Directory then
              (Inl (Error (path @ '' is a directory - add files inside'' @ [CHR 0x0A])), r)
            else if opt_remove opts \<and> \<not> isOnDisk \<and> isInIndex then
              (if index_isFileInConflict r path then (Inl (Error ''unsupported''), r)
               else (Inr (Some [CHR 0x0A]), index_writeRm r path))
            else if opt_remove opts \<and> \<not> isOnDisk \<and> \<not> isInIndex then
              (Inr (Some [CHR 0x0A]), r)
            else if \<not> opt_add opts \<and> isOnDisk \<and> \<not> isInIndex then
              (Inl (Error (''cannot add '' @ path @ '' to index - use --add option'' @ [CHR 0x0A])), r)
            else if isOnDisk \<and> (opt_add opts \<or> isInIndex) then
              (case onDisk of
                 Some (File content) \<Rightarrow>
                   (Inr (Some [CHR 0x0A]), index_writeNonConflict H r path content)
               | _ \<Rightarrow> (Inl TypeError, r))
            else if \<not> opt_remove opts \<and> \<not> isOnDisk then
              (Inl (Error (path @ '' does not exist and --remove not passed'' @ [CHR 0x0A])), r)
            else (Inr None, r)))"

section \<open>version.write_tree and version.commit\<close>

text \<open>
  Modelled from the spec: \<^verbatim>\<open>files.nestFlatTree\<close> and \<^verbatim>\<open>objects.writeTree\<close> (section
  4.1, write_tree): the flat table of contents becomes a nested one, a path segment to a
  blob hash or to a nested table; the sub-trees are written first and the root tree
  last, and the hash of the root is returned.
\<close>

datatype ntree = NFile hash | NDir "(string \<times> ntree) list"

fun nest_put :: "string list \<Rightarrow> hash \<Rightarrow> (string \<times> ntree) list \<Rightarrow> (string \<times> ntree) list" where
  "nest_put [] h t = t"
| "nest_put [n] h t = AList.update n (NFile h) t"
| "nest_put (n # m # ms) h t =
     AList.update n
       (NDir (nest_put (m # ms) h (case map_of t n of Some (NDir sub) \<Rightarrow> sub | _ \<Rightarrow> [])))
       t"

definition nestFlatTree :: "(string \<times> hash) list \<Rightarrow> ntree" where
  "nestFlatTree toc = NDir (fold (\<lambda>e. nest_put (split_at CHR ''/'' (fst e)) (snd e)) toc [])"

fun tree_entry :: "(object \<Rightarrow> hash) \<Rightarrow> ntree \<Rightarrow> kind \<times> hash" where
  "tree_entry H (NFile h) = (KBlob, h)"
| "tree_entry H (NDir es) =
     (KTree, H (Tree (map (\<lambda>e. (fst e, tree_entry H (snd e))) es)))"

fun tree_objects :: "(object \<Rightarrow> hash) \<Rightarrow> ntree \<Rightarrow> object list" where
  "tree_objects H (NFile h) = []"
| "tree_objects H (NDir es) =
     concat (map (\<lambda>e. tree_objects H (snd e)) es) @
     [Tree (map (\<lambda>e. (fst e, tree_entry H (snd e))) es)]"

definition write_all :: "(object \<Rightarrow> hash) \<Rightarrow> object list \<Rightarrow> repo \<Rightarrow> repo" where
  "write_all H objs r = fold (\<lambda>obj r'. snd (objects_write H r' obj)) objs r"

definition objects_writeTree :: "(object \<Rightarrow> hash) \<Rightarrow> repo \<Rightarrow> ntree \<Rightarrow> hash \<times> repo" where
  "objects_writeTree H r t = (snd (tree_entry H t), write_all H (tree_objects H t) r)"

definition write_tree :: "(object \<Rightarrow> hash) \<Rightarrow> repo \<Rightarrow> hash \<times> repo" where
  "write_tree H r = objects_writeTree H r (nestFlatTree (index_toc r))"

definition commitParentHashes :: "repo \<Rightarrow> error + hash option list" where
  "commitParentHashes r =
     (case refs_hash r ''HEAD'' of
        Inl e \<Rightarrow> Inl e
      | Inr headHash \<Rightarrow>
          if isMergeInProgress r then
            (case refs_hash r ''MERGE_HEAD'' of
               Inl e \<Rightarrow> Inl e
             | Inr mergeHash \<Rightarrow> Inr [headHash, mergeHash])
          else if headHash = None then Inr []
          else Inr [headHash])"

definition nothing_to_commit :: "string \<Rightarrow> string" where
  "nothing_to_commit headDesc =
     ''# On '' @ headDesc @ [CHR 0x0A] @ ''nothing to commit, working directory clean''"

definition unmerged_files :: "string list \<Rightarrow> string" where
  "unmerged_files paths =
     join [CHR 0x0A] (map (\<lambda>p. ''U '' @ p) paths) @ [CHR 0x0A] @
     ''cannot commit because you have unmerged files'' @ [CHR 0x0A]"

text \<open>
  The second half of \<open>commit\<close>, from the conflict check on. \<open>opts\<close> is \<open>None\<close> when
  \<open>commit\<close> is called without an argument (as \<open>merge\<close> does), and else the option
  \<^verbatim>\<open>m\<close>, which may be undefined; \<^verbatim>\<open>opts.m\<close> is read only outside a merge.
\<close>

definition commit_changes ::
  "(object \<Rightarrow> hash) \<Rightarrow> repo \<Rightarrow> string option option \<Rightarrow> hash \<Rightarrow> string \<Rightarrow>
     (error + string) \<times> repo" where
  "commit_changes H r opts treeHash headDesc =
     (if isMergeInProgress r \<and> index_conflictedPaths r \<noteq> [] then
        (Inl (Error (unmerged_files (index_conflictedPaths r))), r)
      else
        (case (if isMergeInProgress r then Inr (files_read r ''MERGE_MSG'')
               else (case opts of None \<Rightarrow> Inl TypeError | Some m \<Rightarrow> Inr m)) of
           Inl e \<Rightarrow> (Inl e, r)
         | Inr m \<Rightarrow>
             (case commitParentHashes r of
                Inl e \<Rightarrow> (Inl e, r)
              | Inr parents \<Rightarrow>
                  (case objects_writeCommit H r treeHash m parents of
                     (commitHash, r1) \<Rightarrow>
                       (case update_ref r1 ''HEAD'' commitHash of
                          (Inl e, r2) \<Rightarrow> (Inl e, r2)
                        | (Inr _, r2) \<Rightarrow>
                            if isMergeInProgress r2 then
                              (case files_unlink r2 ''MERGE_MSG'' of
                                 (Inl e, r3) \<Rightarrow> (Inl e, r3)
                               | (Inr _, r3) \<Rightarrow>
                                   (case refs_rm r3 ''MERGE_HEAD'' of
                                      (Inl e, r4) \<Rightarrow> (Inl e, r4)
                                    | (Inr _, r4) \<Rightarrow>
                                        (Inr ''Merge made by the three-way strategy'', r4)))
                            else
                              (Inr (''['' @ headDesc @ '' '' @ commitHash @ ''] '' @ js_str m),
                               r2))))))"

text \<open>
  \<^verbatim>\<open>headDesc\<close>, the text \<open>commit\<close> names HEAD by: the branch name, or
  \<^verbatim>\<open>detached HEAD\<close>.
\<close>

definition head_description :: "repo \<Rightarrow> error + string" where
  "head_description r =
     (case isHeadDetached r of
        Inl e \<Rightarrow> Inl e
      | Inr True \<Rightarrow> Inr ''detached HEAD''
      | Inr False \<Rightarrow> map_sum id js_str (headBranchName r))"

definition version_commit ::
  "(object \<Rightarrow> hash) \<Rightarrow> repo \<Rightarrow> string option option \<Rightarrow> (error + string) \<times> repo" where
  "version_commit H r opts =
     (if is_bare r then (Inl BareDisallowed, r)
      else
        (case write_tree H r of
           (treeHash, r1) \<Rightarrow>
             (case head_description r1 of
                Inl e \<Rightarrow> (Inl e, r1)
              | Inr headDesc \<Rightarrow>
                  (case refs_hash r1 ''HEAD'' of
                     Inl e \<Rightarrow> (Inl e, r1)
                   | Inr None \<Rightarrow> commit_changes H r1 opts treeHash headDesc
                   | Inr (Some headHash) \<Rightarrow>
                       (case objects_read r1 headHash of
                          None \<Rightarrow> (Inl TypeError, r1)
                        | Some obj \<Rightarrow>
                            if objects_treeHash obj = Some treeHash then
                              (Inl (Error (nothing_to_commit headDesc)), r1)
                            else commit_changes H r1 opts treeHash headDesc)))))"

section \<open>version.merge\<close>

text \<open>
  The parts of the missing modules \<^verbatim>\<open>diff\<close> and \<^verbatim>\<open>merge\<close> that \<open>merge\<close> calls after
  its up-to-date test, taken as parameters.
\<close>

record merge_ops =
  changedFilesCommitWouldOverwrite :: "repo \<Rightarrow> hash \<Rightarrow> string list"
  writeFastForwardMerge :: "repo \<Rightarrow> hash option \<Rightarrow> hash \<Rightarrow> (error + unit) \<times> repo"
  writeNonFastForwardMerge ::
    "repo \<Rightarrow> hash option \<Rightarrow> hash \<Rightarrow> string \<Rightarrow> (error + unit) \<times> repo"
  hasConflicts :: "repo \<Rightarrow> hash option \<Rightarrow> hash \<Rightarrow> bool"

text \<open>
  \<^verbatim>\<open>objects.type(objects.read(giverHash))\<close> raises when nothing is stored under the
  hash.
\<close>

definition version_merge ::
  "merge_ops \<Rightarrow> (object \<Rightarrow> hash) \<Rightarrow> repo \<Rightarrow> string \<Rightarrow> (error + string) \<times> repo" where
  "version_merge X H r ref =
     (if is_bare r then (Inl BareDisallowed, r)
      else
        (case refs_hash r ''HEAD'' of
           Inl e \<Rightarrow> (Inl e, r)
         | Inr receiverHash \<Rightarrow>
             (case refs_hash r ref of
                Inl e \<Rightarrow> (Inl e, r)
              | Inr giverHash \<Rightarrow>
                  (case isHeadDetached r of
                     Inl e \<Rightarrow> (Inl e, r)
                   | Inr True \<Rightarrow> (Inl (Error ''unsupported''), r)
                   | Inr False \<Rightarrow>
                       (case giverHash of
                          None \<Rightarrow> (Inl (Error (ref @ '': expected commit type'')), r)
                        | Some g \<Rightarrow>
                            (case objects_read r g of
                               None \<Rightarrow> (Inl TypeError, r)
                             | Some obj \<Rightarrow>
                                 if objects_type obj \<noteq> TCommit then
                                   (Inl (Error (ref @ '': expected commit type'')), r)
                                 else if isUpToDate r receiverHash (Some g) then
                                   (Inr ''Already up-to-date'', r)
                                 else if changedFilesCommitWouldOverwrite X r g \<noteq> [] then
                                   (Inl (Error (''local changes would be lost'' @ [CHR 0x0A] @
                                      join [CHR 0x0A] (changedFilesCommitWouldOverwrite X r g) @
                                      [CHR 0x0A])), r)
                                 else if canFastForward r receiverHash g then
                                   (case writeFastForwardMerge X r receiverHash g of
                                      (Inl e, r1) \<Rightarrow> (Inl e, r1)
                                    | (Inr _, r1) \<Rightarrow> (Inr ''Fast-forward'', r1))
                                 else
                                   (case writeNonFastForwardMerge X r receiverHash g ref of
                                      (Inl e, r1) \<Rightarrow> (Inl e, r1)
                                    | (Inr _, r1) \<Rightarrow>
                                        if hasConflicts X r1 receiverHash g then
                                          (Inr ''Automatic merge failed. Fix conflicts and commit the result.'', r1)
                                        else version_commit H r1 None)))))))"

section \<open>version.fetch and version.push\<close>

text \<open>
  Modelled from the spec: \<^verbatim>\<open>util.onRemote\<close> (section 4.7, peer handle; section 9, peer
  access). The repositories of the machine are kept by their path; a call on a remote
  runs in the repository at the remote's path, and fails where there is none. The
  calling repository is the one at the path \<open>here\<close>, so a remote may be the calling
  repository itself.
\<close>

type_synonym world = "string \<Rightarrow> repo option"

definition onRemote ::
  "world \<Rightarrow> string \<Rightarrow> (repo \<Rightarrow> (error + 'a) \<times> repo) \<Rightarrow> (error + 'a) \<times> world" where
  "onRemote w path f =
     (case w path of
        None \<Rightarrow> (Inl NotInRepo, w)
      | Some r \<Rightarrow> (case f r of (res, r') \<Rightarrow> (res, w(path \<mapsto> r'))))"

definition isCheckedOut :: "repo \<Rightarrow> string \<Rightarrow> error + bool" where
  "isCheckedOut r branch =
     (if is_bare r then Inr False
      else (case headBranchName r of Inl e \<Rightarrow> Inl e | Inr b \<Rightarrow> Inr (b = Some branch)))"

definition fetch_record :: "hash \<Rightarrow> string \<Rightarrow> string \<Rightarrow> string" where
  "fetch_record newHash branch remoteUrl = newHash @ '' branch '' @ branch @ '' of '' @ remoteUrl"

definition fetch_report :: "string \<Rightarrow> nat \<Rightarrow> string \<Rightarrow> string \<Rightarrow> bool \<Rightarrow> string" where
  "fetch_report remoteUrl n remote branch forced =
     join [CHR 0x0A]
       [''From '' @ remoteUrl,
        ''Count '' @ digits n,
        branch @ '' -> '' @ remote @ ''/'' @ branch @ (if forced then '' (forced)'' else '''')] @
     [CHR 0x0A]"

definition push_report :: "string \<Rightarrow> nat \<Rightarrow> string \<Rightarrow> string" where
  "push_report remotePath n branch =
     join [CHR 0x0A]
       [''To '' @ remotePath, ''Count '' @ digits n, branch @ '' -> '' @ branch] @
     [CHR 0x0A]"

text \<open>
  \<open>fetch\<close>. An argument that is not passed is \<open>None\<close>. After the remote's hash is known,
  the steps run in the calling repository: the remote's objects are written, the
  remote-tracking ref is updated, FETCH_HEAD is written.
\<close>

definition fetch_here ::
  "(object \<Rightarrow> hash) \<Rightarrow> object list \<Rightarrow> string \<Rightarrow> string \<Rightarrow> string \<Rightarrow> hash \<Rightarrow> repo \<Rightarrow>
     (error + string) \<times> repo" where
  "fetch_here H remoteObjects remoteUrl remote branch newHash r =
     (case refs_hash r (toRemoteRef remote branch) of
        Inl e \<Rightarrow> (Inl e, r)
      | Inr oldHash \<Rightarrow>
          (case update_ref (write_all H remoteObjects r) (toRemoteRef remote branch) newHash of
             (Inl e, r2) \<Rightarrow> (Inl e, r2)
           | (Inr _, r2) \<Rightarrow>
               (case refs_write r2 ''FETCH_HEAD'' (fetch_record newHash branch remoteUrl) of
                  r3 \<Rightarrow>
                    (Inr (fetch_report remoteUrl (length remoteObjects) remote branch
                            (isAForceFetch r3 oldHash newHash)),
                     r3))))"

definition version_fetch ::
  "(object \<Rightarrow> hash) \<Rightarrow> world \<Rightarrow> string \<Rightarrow> string option \<Rightarrow> string option \<Rightarrow>
     (error + string) \<times> world" where
  "version_fetch H w here remote branch =
     (case w here of
        None \<Rightarrow> (Inl NotInRepo, w)
      | Some r \<Rightarrow>
          (case (remote, branch) of
             (Some rem, Some b) \<Rightarrow>
               (case map_of (remote_urls r) rem of
                  None \<Rightarrow> (Inl (Error (rem @ '' does not appear to be a git repository'')), w)
                | Some remoteUrl \<Rightarrow>
                    (case w remoteUrl of
                       None \<Rightarrow> (Inl NotInRepo, w)
                     | Some peer \<Rightarrow>
                         (case refs_hash peer b of
                            Inl e \<Rightarrow> (Inl e, w)
                          | Inr None \<Rightarrow> (Inl (Error (''couldn'' @ [CHR 0x27] @ ''t find remote ref '' @ b)), w)
                          | Inr (Some newHash) \<Rightarrow>
                              onRemote w here
                                (fetch_here H (objects_allObjects peer) remoteUrl rem b newHash))))
           | _ \<Rightarrow> (Inl (Error ''unsupported''), w)))"

text \<open>
  \<open>push\<close>. \<open>f\<close> is the option \<^verbatim>\<open>opts.f\<close>. The up-to-date and fast-forward tests run in
  the calling repository. The writes are, in this order: every local object into the
  remote store, the remote's branch ref, the local remote-tracking ref.
\<close>

definition version_push ::
  "(object \<Rightarrow> hash) \<Rightarrow> world \<Rightarrow> string \<Rightarrow> string option \<Rightarrow> string option \<Rightarrow> bool \<Rightarrow>
     (error + string) \<times> world" where
  "version_push H w here remote branch f =
     (case w here of
        None \<Rightarrow> (Inl NotInRepo, w)
      | Some r \<Rightarrow>
          (case (remote, branch) of
             (Some rem, Some b) \<Rightarrow>
               (case map_of (remote_urls r) rem of
                  None \<Rightarrow> (Inl (Error (rem @ '' does not appear to be a git repository'')), w)
                | Some remotePath \<Rightarrow>
                    (case w remotePath of
                       None \<Rightarrow> (Inl NotInRepo, w)
                     | Some peer \<Rightarrow>
                         (case isCheckedOut peer b of
                            Inl e \<Rightarrow> (Inl e, w)
                          | Inr True \<Rightarrow>
                              (Inl (Error (''refusing to update checked out branch '' @ b)), w)
                          | Inr False \<Rightarrow>
                              (case refs_hash peer b of
                                 Inl e \<Rightarrow> (Inl e, w)
                               | Inr receiverHash \<Rightarrow>
                                   (case refs_hash r b of
                                      Inl e \<Rightarrow> (Inl e, w)
                                    | Inr None \<Rightarrow> (Inr ''Already up-to-date'', w)
                                    | Inr (Some giverHash) \<Rightarrow>
                                        if isUpToDate r receiverHash (Some giverHash) then
                                          (Inr ''Already up-to-date'', w)
                                        else if \<not> f \<and> \<not> canFastForward r receiverHash giverHash then
                                          (Inl (Error (''failed to push some refs to '' @ remotePath)), w)
                                        else
                                          (case onRemote w remotePath
                                                  (\<lambda>p. (Inr (), write_all H (objects_allObjects r) p)) of
                                             (Inl e, w1) \<Rightarrow> (Inl e, w1)
                                           | (Inr _, w1) \<Rightarrow>
                                               (case onRemote w1 remotePath
                                                       (\<lambda>p. update_ref p (toLocalRef b) giverHash) of
                                                  (Inl e, w2) \<Rightarrow> (Inl e, w2)
                                                | (Inr _, w2) \<Rightarrow>
                                                    (case onRemote w2 here
                                                            (\<lambda>l. update_ref l (toRemoteRef rem b) giverHash) of
                                                       (Inl e, w3) \<Rightarrow> (Inl e, w3)
                                                     | (Inr _, w3) \<Rightarrow>
                                                         (case w3 here of
                                                            None \<Rightarrow> (Inl NotInRepo, w3)
                                                          | Some l \<Rightarrow>
                                                              (Inr (push_report remotePath
                                                                      (length (objects_allObjects l)) b),
                                                               w3))))))))))
           | _ \<Rightarrow> (Inl (Error ''unsupported''), w)))"

section \<open>Example repositories\<close>

text \<open>
  A content hash for the examples: a digit for the kind of object, then its payload.
\<close>

definition demo_H :: "object \<Rightarrow> hash" where
  "demo_H obj =
     (case obj of
        Blob s \<Rightarrow> ''3'' @ s
      | Tree es \<Rightarrow> ''2'' @ concat (map (\<lambda>e. fst e @ '':'' @ snd (snd e) @ '';'') es)
      | Commit t ps m \<Rightarrow> ''1'' @ m)"

text \<open>
  A repository on branch master with one commit \<^verbatim>\<open>1c1\<close>, of the file \<^verbatim>\<open>a\<close> with
  content \<^verbatim>\<open>x\<close>; the working copy and the index match the commit.
\<close>

definition demo_repo :: repo where
  "demo_repo =
     \<lparr>version_files =
        [(''HEAD'', ''ref: refs/heads/master'' @ [CHR 0x0A]), (''refs/heads/master'', ''1c1'')],
      object_store =
        [(''3x'', Blob ''x''),
         (''2a:3x;'', Tree [(''a'', KBlob, ''3x'')]),
         (''1c1'', Commit ''2a:3x;'' [] ''c1'')],
      is_bare = False,
      remote_urls = [(''origin'', ''peer'')],
      index_entries = [((''a'', 0), ''3x'')],
      working_copy = [(''a'', File ''x'')],
      journal = []\<rparr>"




text \<open>
  Merge operations for the examples: the fast-forward advances the current branch, the
  other merge leaves a conflict behind.
\<close>

definition demo_ops :: merge_ops where
  "demo_ops =
     \<lparr>changedFilesCommitWouldOverwrite = (\<lambda>r h. []),
      writeFastForwardMerge = (\<lambda>r receiver giver. update_ref r ''HEAD'' giver),
      writeNonFastForwardMerge = (\<lambda>r receiver giver ref. (Inr (), r)),
      hasConflicts = (\<lambda>r receiver giver. True)\<rparr>"

text \<open>
  A repository with a second commit \<^verbatim>\<open>1c2\<close> on top of \<^verbatim>\<open>1c1\<close>: master is at
  \<^verbatim>\<open>1c2\<close> and checked out, feat is at \<^verbatim>\<open>1c1\<close>. The same with feat checked out.
\<close>

definition demo_two :: repo where
  "demo_two =
     \<lparr>version_files =
        [(''HEAD'', ''ref: refs/heads/master'' @ [CHR 0x0A]),
         (''refs/heads/master'', ''1c2''),
         (''refs/heads/feat'', ''1c1'')],
      object_store =
        [(''3x'', Blob ''x''),
         (''2a:3x;'', Tree [(''a'', KBlob, ''3x'')]),
         (''1c1'', Commit ''2a:3x;'' [] ''c1''),
         (''3y'', Blob ''y''),
         (''2a:3y;'', Tree [(''a'', KBlob, ''3y'')]),
         (''1c2'', Commit ''2a:3y;'' [''1c1''] ''c2'')],
      is_bare = False,
      remote_urls = [(''origin'', ''peer'')],
      index_entries = [((''a'', 0), ''3y'')],
      working_copy = [(''a'', File ''y'')],
      journal = []\<rparr>"

definition demo_two_on_feat :: repo where
  "demo_two_on_feat =
     demo_two\<lparr>version_files :=
        [(''HEAD'', ''ref: refs/heads/feat'' @ [CHR 0x0A]),
         (''refs/heads/master'', ''1c2''),
         (''refs/heads/feat'', ''1c1'')],
       index_entries := [((''a'', 0), ''3x'')],
       working_copy := [(''a'', File ''x'')]\<rparr>"

text \<open>
  The example repository with the file \<^verbatim>\<open>a\<close> changed to \<^verbatim>\<open>y\<close> on disk and
  staged.
\<close>

definition demo_staged :: repo where
  "demo_staged =
     demo_repo\<lparr>object_store := object_store demo_repo @ [(''3y'', Blob ''y'')],
       index_entries := [((''a'', 0), ''3y'')],
       working_copy := [(''a'', File ''y'')]\<rparr>"

section \<open>Properties of refs.js\<close>

lemma strip_prefix_Some: "strip_prefix p s = Some t \<longleftrightarrow> s = p @ t"
  by (induction p s rule: strip_prefix.induct) auto

lemma strip_prefix_append: "strip_prefix p (p @ t) = Some t"
  by (simp add: strip_prefix_Some)

lemma branch_name_slash: "branch_name n \<Longrightarrow> CHR ''/'' \<notin> set n"
  by (auto simp: branch_name_def list_all_iff name_char_def)

lemma takeWhile_name: "list_all name_char a \<Longrightarrow> takeWhile name_char (a @ CHR ''/'' # n) = a"
  by (induction a) (auto simp: name_char_def)

lemma dropWhile_name:
  "list_all name_char a \<Longrightarrow> dropWhile name_char (a @ CHR ''/'' # n) = CHR ''/'' # n"
  by (induction a) (auto simp: name_char_def)

lemma isRef_heads: "isRef (''refs/heads/'' @ n) = branch_name n"
  by (simp add: isRef_def)

lemma isRef_remotes:
  "branch_name a \<Longrightarrow> isRef (''refs/remotes/'' @ a @ ''/'' @ n) = branch_name n"
  by (simp add: isRef_def takeWhile_name dropWhile_name branch_name_def)

text \<open>
  C6, as the code has it: \<open>isRef\<close> is true exactly of HEAD, FETCH_HEAD, MERGE_HEAD,
  \<^verbatim>\<open>refs/heads/<name>\<close> and \<^verbatim>\<open>refs/remotes/<remote>/<name>\<close>, where \<^verbatim>\<open><name>\<close> and
  \<^verbatim>\<open><remote>\<close> are non-empty and made of the characters \<^verbatim>\<open>[A-Za-z-]\<close>; of every other
  string (MERGE_MSG among them) it is false.
\<close>

theorem isRef_forms:
  "isRef s \<longleftrightarrow>
     (s = ''HEAD'' \<or> s = ''FETCH_HEAD'' \<or> s = ''MERGE_HEAD'' \<or>
      (\<exists>n. branch_name n \<and> s = ''refs/heads/'' @ n) \<or>
      (\<exists>a n. branch_name a \<and> branch_name n \<and> s = ''refs/remotes/'' @ a @ ''/'' @ n))"
proof
  assume ref: "isRef s"
  show "s = ''HEAD'' \<or> s = ''FETCH_HEAD'' \<or> s = ''MERGE_HEAD'' \<or>
      (\<exists>n. branch_name n \<and> s = ''refs/heads/'' @ n) \<or>
      (\<exists>a n. branch_name a \<and> branch_name n \<and> s = ''refs/remotes/'' @ a @ ''/'' @ n)"
  proof (cases "strip_prefix ''refs/heads/'' s")
    case (Some n)
    then have s: "s = ''refs/heads/'' @ n"
      by (simp only: strip_prefix_Some)
    with ref have "branch_name n"
      by (simp only: isRef_heads)
    with s show ?thesis by blast
  next
    case None
    note no_heads = None
    show ?thesis
    proof (cases "strip_prefix ''refs/remotes/'' s")
      case None
      with no_heads ref have "s = ''HEAD'' \<or> s = ''FETCH_HEAD'' \<or> s = ''MERGE_HEAD''"
        by (simp add: isRef_def)
      then show ?thesis by blast
    next
      case (Some rest)
      then have s: "s = ''refs/remotes/'' @ rest"
        by (simp only: strip_prefix_Some)
      then have not_name: "s \<noteq> ''HEAD''" "s \<noteq> ''FETCH_HEAD''" "s \<noteq> ''MERGE_HEAD''"
        by auto
      from ref Some no_heads not_name
      have tw: "takeWhile name_char rest \<noteq> []"
        and dw: "case dropWhile name_char rest of [] \<Rightarrow> False
                 | c # n \<Rightarrow> c = CHR ''/'' \<and> branch_name n"
        by (auto simp: isRef_def)
      from dw obtain n where n: "dropWhile name_char rest = CHR ''/'' # n" "branch_name n"
        by (auto split: list.splits)
      have "rest = takeWhile name_char rest @ dropWhile name_char rest"
        by simp
      with n have rest: "rest = takeWhile name_char rest @ ''/'' @ n"
        by simp
      have "list_all name_char (takeWhile name_char rest)"
        by (simp add: list_all_iff) (meson set_takeWhileD)
      with tw have "branch_name (takeWhile name_char rest)"
        by (simp add: branch_name_def)
      with n(2) rest s show ?thesis
        by (metis append_assoc)
    qed
  qed
next
  assume "s = ''HEAD'' \<or> s = ''FETCH_HEAD'' \<or> s = ''MERGE_HEAD'' \<or>
      (\<exists>n. branch_name n \<and> s = ''refs/heads/'' @ n) \<or>
      (\<exists>a n. branch_name a \<and> branch_name n \<and> s = ''refs/remotes/'' @ a @ ''/'' @ n)"
  then consider "s = ''HEAD'' \<or> s = ''FETCH_HEAD'' \<or> s = ''MERGE_HEAD''"
    | n where "branch_name n" "s = ''refs/heads/'' @ n"
    | a n where "branch_name a" "branch_name n" "s = ''refs/remotes/'' @ a @ ''/'' @ n"
    by blast
  then show "isRef s"
  proof cases
    case 1
    then show ?thesis by (auto simp: isRef_def)
  next
    case 2
    then show ?thesis by (simp only: isRef_heads)
  next
    case 3
    then show ?thesis by (simp only: isRef_remotes)
  qed
qed

theorem isRef_forms_witness:
  "isRef ''refs/remotes/origin/master'' \<and> isRef ''refs/heads/bug-fix'' \<and> isRef ''HEAD'' \<and>
   \<not> isRef ''refs/heads/v2'' \<and> \<not> isRef ''refs/heads/a/b'' \<and> \<not> isRef ''master''"
proof -
  have a: "isRef ''refs/remotes/origin/master''"
    using isRef_forms [of "''refs/remotes/origin/master''"]
    by (simp add: isRef_def name_char_def branch_name_def)
  have b: "isRef ''refs/heads/bug-fix'' \<and> isRef ''HEAD''"
    by (simp add: isRef_def name_char_def branch_name_def)
  have c: "\<not> isRef ''refs/heads/v2'' \<and> \<not> isRef ''refs/heads/a/b'' \<and> \<not> isRef ''master''"
    by (simp add: isRef_def name_char_def branch_name_def)
  from a b c show ?thesis by simp
qed

theorem isRef_MERGE_MSG_counterexample: "\<not> isRef ''MERGE_MSG''"
  by (simp add: isRef_def)

lemma files_read_write: "files_read (files_write r p c) q = (if q = p then Some c else files_read r q)"
  by (simp add: files_read_def files_write_def logged_def update_conv')

text \<open>
  C8: for a name that fails the ref syntax, \<open>refs.write\<close> writes nothing and raises
  nothing; the repository, its journal of writes included, is as it was.
\<close>

theorem refs_write_ignores_non_ref:
  "\<not> isRef name \<Longrightarrow> refs_write r name content = r"
  by (simp add: refs_write_def)

theorem refs_write_ignores_non_ref_witness:
  "\<not> isRef ''refs/heads/my_branch'' \<and>
   refs_write demo_repo ''refs/heads/my_branch'' ''1c1'' = demo_repo"
proof -
  have "\<not> isRef ''refs/heads/my_branch''"
    by (simp add: isRef_def branch_name_def name_char_def)
  then show ?thesis
    using refs_write_ignores_non_ref [of "''refs/heads/my_branch''" demo_repo "''1c1''"]
    by simp
qed



subsection \<open>refs.hash\<close>




















section \<open>Properties of version.update_index\<close>

lemma map_of_update_same: "map_of (AList.update k v al) k = Some v"
  by (simp add: update_conv')

lemma index_after_writeNonConflict:
  "map_of (index_entries (index_writeNonConflict H r path content)) (path, 0) = Some (H (Blob content))"
  by (simp add: index_writeNonConflict_def objects_write_def index_write_def logged_def
      map_of_update_same)

lemma blob_after_writeNonConflict:
  "objects_read (index_writeNonConflict H r path content) (H (Blob content)) = Some (Blob content)"
  by (simp add: index_writeNonConflict_def objects_write_def index_write_def logged_def
      objects_read_def map_of_update_same)

text \<open>
  C10: in a repository with a working copy, for a path that is a file on disk and is in
  the index at stage 0, \<open>update_index\<close> with the option \<^verbatim>\<open>remove\<close> does not remove
  the path: it returns a line feed, no error, and the index holds at stage 0 the hash of
  the blob of the file's content on disk, which is stored.
\<close>

theorem update_index_remove_file_on_disk:
  assumes "\<not> is_bare r" and "map_of (working_copy r) path = Some (File content)"
    and "index_hasFile r path 0" and "opt_remove opts"
  shows "update_index H r path opts =
           (Inr (Some [CHR 0x0A]), index_writeNonConflict H r path content) \<and>
         index_hasFile (index_writeNonConflict H r path content) path 0 \<and>
         map_of (index_entries (index_writeNonConflict H r path content)) (path, 0) =
           Some (H (Blob content)) \<and>
         objects_read (index_writeNonConflict H r path content) (H (Blob content)) =
           Some (Blob content)"
proof -
  from assms have "update_index H r path opts =
           (Inr (Some [CHR 0x0A]), index_writeNonConflict H r path content)"
    by (simp add: update_index_def)
  moreover have "index_hasFile (index_writeNonConflict H r path content) path 0"
    by (simp add: index_hasFile_def index_after_writeNonConflict)
  ultimately show ?thesis
    using index_after_writeNonConflict blob_after_writeNonConflict by blast
qed

theorem update_index_remove_file_on_disk_witness:
  "update_index demo_H (demo_repo\<lparr>working_copy := [(''a'', File ''y'')]\<rparr>) ''a''
       \<lparr>opt_add = False, opt_remove = True\<rparr> =
     (Inr (Some [CHR 0x0A]),
      index_writeNonConflict demo_H (demo_repo\<lparr>working_copy := [(''a'', File ''y'')]\<rparr>) ''a'' ''y'') \<and>
   map_of (index_entries
       (index_writeNonConflict demo_H (demo_repo\<lparr>working_copy := [(''a'', File ''y'')]\<rparr>) ''a'' ''y''))
     (''a'', 0) = Some ''3y''"
proof -
  let ?r = "demo_repo\<lparr>working_copy := [(''a'', File ''y'')]\<rparr>"
  have h: "\<not> is_bare ?r" "map_of (working_copy ?r) ''a'' = Some (File ''y'')"
    "index_hasFile ?r ''a'' 0" "opt_remove \<lparr>opt_add = False, opt_remove = True\<rparr>"
    by code_simp+
  have d: "demo_H (Blob ''y'') = ''3y''"
    by code_simp
  from update_index_remove_file_on_disk [OF h, of demo_H] d show ?thesis
    by simp
qed

section \<open>Properties of version.merge\<close>

lemma commit_changes_not_up_to_date:
  "fst (commit_changes H r opts treeHash headDesc) \<noteq> Inr ''Already up-to-date''"
  unfolding commit_changes_def
  by (simp split: sum.splits option.splits prod.splits if_splits unit.splits)

lemma commit_not_up_to_date: "fst (version_commit H r opts) \<noteq> Inr ''Already up-to-date''"
  unfolding version_commit_def
  using commit_changes_not_up_to_date
  by (simp split: sum.splits option.splits prod.splits)

text \<open>
  C2: with an attached HEAD in a repository that is not bare, HEAD resolving to the
  receiver and the ref to a giver that is a commit, \<open>merge\<close> returns
  \<^verbatim>\<open>Already up-to-date\<close> exactly when the receiver is the giver or the giver is an
  ancestor of the receiver, and then it is a value, no error, and the repository is
  as it was; this holds whatever the later steps of the merge do.
\<close>

theorem merge_up_to_date:
  assumes "\<not> is_bare r" and "isHeadDetached r = Inr False"
    and "refs_hash r ''HEAD'' = Inr (Some receiver)"
    and "refs_hash r ref = Inr (Some giver)"
    and "map_option objects_type (objects_read r giver) = Some TCommit"
  shows "(fst (version_merge X H r ref) = Inr ''Already up-to-date'' \<longleftrightarrow>
            receiver = giver \<or> isAncestor r giver receiver) \<and>
         (receiver = giver \<or> isAncestor r giver receiver \<longrightarrow>
            version_merge X H r ref = (Inr ''Already up-to-date'', r))"
proof -
  from assms(5) obtain obj where obj: "objects_read r giver = Some obj" "objects_type obj = TCommit"
    by auto
  have utd: "isUpToDate r (Some receiver) (Some giver) \<longleftrightarrow>
      receiver = giver \<or> isAncestor r giver receiver"
    by (simp add: isUpToDate_def)
  show ?thesis
  proof (cases "receiver = giver \<or> isAncestor r giver receiver")
    case True
    with assms obj utd have "version_merge X H r ref = (Inr ''Already up-to-date'', r)"
      by (simp add: version_merge_def)
    with True show ?thesis by simp
  next
    case False
    with utd have n: "\<not> isUpToDate r (Some receiver) (Some giver)" by simp
    have "fst (version_merge X H r ref) \<noteq> Inr ''Already up-to-date''"
      using assms(1-4) obj n commit_not_up_to_date [of H _ None]
      by (simp add: version_merge_def split: prod.splits sum.splits)
    with False show ?thesis by simp
  qed
qed

theorem merge_up_to_date_witness:
  "version_merge demo_ops demo_H demo_two ''feat'' = (Inr ''Already up-to-date'', demo_two) \<and>
   isAncestor demo_two ''1c1'' ''1c2'' \<and>
   fst (version_merge demo_ops demo_H demo_two_on_feat ''master'') \<noteq> Inr ''Already up-to-date'' \<and>
   \<not> isAncestor demo_two_on_feat ''1c2'' ''1c1''"
proof -
  have h1: "\<not> is_bare demo_two" "isHeadDetached demo_two = Inr False"
    "refs_hash demo_two ''HEAD'' = Inr (Some ''1c2'')"
    "refs_hash demo_two ''feat'' = Inr (Some ''1c1'')"
    "map_option objects_type (objects_read demo_two ''1c1'') = Some TCommit"
    by code_simp+
  have a1: "isAncestor demo_two ''1c1'' ''1c2''"
    by code_simp
  have h2: "\<not> is_bare demo_two_on_feat" "isHeadDetached demo_two_on_feat = Inr False"
    "refs_hash demo_two_on_feat ''HEAD'' = Inr (Some ''1c1'')"
    "refs_hash demo_two_on_feat ''master'' = Inr (Some ''1c2'')"
    "map_option objects_type (objects_read demo_two_on_feat ''1c2'') = Some TCommit"
    by code_simp+
  have a2: "\<not> isAncestor demo_two_on_feat ''1c2'' ''1c1''" "''1c1'' \<noteq> ''1c2''"
    by code_simp+
  from merge_up_to_date [OF h1, of demo_ops demo_H] a1
  have c1: "version_merge demo_ops demo_H demo_two ''feat'' = (Inr ''Already up-to-date'', demo_two)"
    by blast
  from merge_up_to_date [OF h2, of demo_ops demo_H] a2
  have c2: "fst (version_merge demo_ops demo_H demo_two_on_feat ''master'') \<noteq> Inr ''Already up-to-date''"
    by blast
  from c1 a1 c2 a2(1) show ?thesis
    by blast
qed

section \<open>Properties of version.commit\<close>

lemma logged_files [simp]: "version_files (logged e r) = version_files r"
  by (simp add: logged_def)

lemma logged_store [simp]: "object_store (logged e r) = object_store r"
  by (simp add: logged_def)

lemma logged_bare [simp]: "is_bare (logged e r) = is_bare r"
  by (simp add: logged_def)

lemma logged_index [simp]: "index_entries (logged e r) = index_entries r"
  by (simp add: logged_def)

lemma write_all_files [simp]: "version_files (write_all H objs r) = version_files r"
  unfolding write_all_def
  by (induction objs arbitrary: r) (simp_all add: objects_write_def)

lemma write_all_index [simp]: "index_entries (write_all H objs r) = index_entries r"
  unfolding write_all_def
  by (induction objs arbitrary: r) (simp_all add: objects_write_def)

lemma write_tree_files: "version_files (snd (write_tree H r)) = version_files r"
  by (simp add: write_tree_def objects_writeTree_def)

lemma write_tree_index: "index_entries (snd (write_tree H r)) = index_entries r"
  by (simp add: write_tree_def objects_writeTree_def)

lemma files_read_cong:
  assumes "version_files r' = version_files r"
  shows "files_read r' = files_read r"
  unfolding files_read_def assms by (rule refl)

lemma isHeadDetached_cong:
  assumes "version_files r' = version_files r"
  shows "isHeadDetached r' = isHeadDetached r"
  unfolding isHeadDetached_def files_read_def assms by (rule refl)

lemma headBranchName_cong:
  assumes "version_files r' = version_files r"
  shows "headBranchName r' = headBranchName r"
  unfolding headBranchName_def isHeadDetached_def files_read_def assms by (rule refl)

lemma terminalRef_cong:
  assumes "version_files r' = version_files r"
  shows "terminalRef r' = terminalRef r"
  unfolding terminalRef_def isHeadDetached_def files_read_def assms by (rule refl)

lemma isMergeInProgress_cong:
  assumes "version_files r' = version_files r"
  shows "isMergeInProgress r' = isMergeInProgress r"
  unfolding isMergeInProgress_def files_read_def assms by (rule refl)

lemma nothing_to_commit_last: "last (nothing_to_commit d) = CHR ''n''"
  by (simp add: nothing_to_commit_def)

lemma nothing_to_commit_hd: "hd (nothing_to_commit d) = CHR ''#''"
  by (simp add: nothing_to_commit_def)

lemma unmerged_files_last: "last (unmerged_files ps) = CHR 0x0A"
  by (simp add: unmerged_files_def)

lemma not_a_valid_SHA1_last: "last (not_a_valid_SHA1 x) = CHR ''1''"
  by (simp add: not_a_valid_SHA1_def)

lemma cannot_lock_the_ref_hd: "hd (cannot_lock_the_ref x) = CHR ''c''"
  by (simp add: cannot_lock_the_ref_def)

lemma cannot_refer_to_non_commit_last: "last (cannot_refer_to_non_commit b h) = CHR 0x0A"
  by (simp add: cannot_refer_to_non_commit_def)

lemma nothing_to_commit_not_unmerged: "nothing_to_commit d \<noteq> unmerged_files ps"
proof
  assume "nothing_to_commit d = unmerged_files ps"
  then have "last (nothing_to_commit d) = last (unmerged_files ps)"
    by (rule arg_cong)
  then have "CHR ''n'' = CHR 0x0A"
    by (simp only: nothing_to_commit_last unmerged_files_last)
  then show False by simp
qed

lemma nothing_to_commit_not_sha: "nothing_to_commit d \<noteq> not_a_valid_SHA1 x"
proof
  assume "nothing_to_commit d = not_a_valid_SHA1 x"
  then have "last (nothing_to_commit d) = last (not_a_valid_SHA1 x)"
    by (rule arg_cong)
  then have "CHR ''n'' = CHR ''1''"
    by (simp only: nothing_to_commit_last not_a_valid_SHA1_last)
  then show False by simp
qed

lemma nothing_to_commit_not_lock: "nothing_to_commit d \<noteq> cannot_lock_the_ref x"
proof
  assume "nothing_to_commit d = cannot_lock_the_ref x"
  then have "hd (nothing_to_commit d) = hd (cannot_lock_the_ref x)"
    by (rule arg_cong)
  then have "CHR ''#'' = CHR ''c''"
    by (simp only: nothing_to_commit_hd cannot_lock_the_ref_hd)
  then show False by simp
qed

lemma nothing_to_commit_not_non_commit:
  "nothing_to_commit d \<noteq> cannot_refer_to_non_commit b h"
proof
  assume "nothing_to_commit d = cannot_refer_to_non_commit b h"
  then have "last (nothing_to_commit d) = last (cannot_refer_to_non_commit b h)"
    by (rule arg_cong)
  then have "CHR ''n'' = CHR 0x0A"
    by (simp only: nothing_to_commit_last cannot_refer_to_non_commit_last)
  then show False by simp
qed

lemma isHeadDetached_error: "isHeadDetached r = Inl e \<Longrightarrow> e = TypeError"
  by (auto simp: isHeadDetached_def split: option.splits)

lemma terminalRef_error: "terminalRef r x = Inl e \<Longrightarrow> e = TypeError"
  by (auto simp: terminalRef_def split: if_splits sum.splits bool.splits option.splits
      dest: isHeadDetached_error)

lemma headBranchName_error: "headBranchName r = Inl e \<Longrightarrow> e = TypeError"
  by (auto simp: headBranchName_def split: sum.splits bool.splits option.splits
      dest: isHeadDetached_error)

lemma fetchHeadBranchToMerge_error: "fetchHeadBranchToMerge r b = Inl e \<Longrightarrow> e = TypeError"
  by (auto simp: fetchHeadBranchToMerge_def Let_def split: option.splits if_splits list.splits)

lemma refs_hash_error: "refs_hash r x = Inl e \<Longrightarrow> e = TypeError"
  by (auto simp: refs_hash_def split: if_splits sum.splits
      dest: terminalRef_error headBranchName_error fetchHeadBranchToMerge_error)

lemma update_ref_error:
  assumes "fst (update_ref r a b) = Inl e"
  shows "e = TypeError \<or> e = Error (not_a_valid_SHA1 b) \<or> e = Error (cannot_lock_the_ref a) \<or>
         (\<exists>t h. e = Error (cannot_refer_to_non_commit t h))"
  using assms unfolding update_ref_def
  by (auto split: sum.splits option.splits if_splits dest: refs_hash_error terminalRef_error)

lemma update_ref_not_nothing_to_commit:
  "fst (update_ref r a b) \<noteq> Inl (Error (nothing_to_commit d))"
  using update_ref_error [of r a b "Error (nothing_to_commit d)"]
    nothing_to_commit_not_sha nothing_to_commit_not_lock nothing_to_commit_not_non_commit
  by auto

lemma commitParentHashes_error: "commitParentHashes r = Inl e \<Longrightarrow> e = TypeError"
  by (auto simp: commitParentHashes_def split: sum.splits if_splits dest: refs_hash_error)

lemma files_unlink_error: "fst (files_unlink r p) = Inl e \<Longrightarrow> e = NoSuchFile"
  by (auto simp: files_unlink_def split: if_splits)

lemma refs_rm_error: "fst (refs_rm r p) = Inl e \<Longrightarrow> e = NoSuchFile"
  by (auto simp: refs_rm_def split: if_splits dest: files_unlink_error)

lemma update_ref_error_pair:
  assumes "update_ref r a b = (Inl e, r')"
  shows "e = TypeError \<or> e = Error (not_a_valid_SHA1 b) \<or> e = Error (cannot_lock_the_ref a) \<or>
         (\<exists>t h. e = Error (cannot_refer_to_non_commit t h))"
  using update_ref_error [of r a b e] assms by simp

lemma files_unlink_error_pair: "files_unlink r p = (Inl e, r') \<Longrightarrow> e = NoSuchFile"
  using files_unlink_error [of r p e] by simp

lemma refs_rm_error_pair: "refs_rm r p = (Inl e, r') \<Longrightarrow> e = NoSuchFile"
  using refs_rm_error [of r p e] by simp

lemma commit_changes_error:
  assumes "commit_changes H r opts treeHash d = (Inl e, r')"
  shows "e = TypeError \<or> e = NoSuchFile \<or>
         e = Error (unmerged_files (index_conflictedPaths r)) \<or>
         (\<exists>x. e = Error (not_a_valid_SHA1 x)) \<or>
         (\<exists>x. e = Error (cannot_lock_the_ref x)) \<or>
         (\<exists>t h. e = Error (cannot_refer_to_non_commit t h))"
proof (cases "isMergeInProgress r \<and> index_conflictedPaths r \<noteq> []")
  case True
  with assms show ?thesis
    by (auto simp: commit_changes_def)
next
  case False
  with assms show ?thesis
    unfolding commit_changes_def
    by (auto split: sum.splits option.splits prod.splits if_splits
        dest!: commitParentHashes_error files_unlink_error_pair refs_rm_error_pair
               update_ref_error_pair)
qed

lemma commit_changes_not_nothing_to_commit:
  "fst (commit_changes H r opts treeHash d) \<noteq> Inl (Error (nothing_to_commit d'))"
proof
  assume "fst (commit_changes H r opts treeHash d) = Inl (Error (nothing_to_commit d'))"
  then obtain r' where "commit_changes H r opts treeHash d = (Inl (Error (nothing_to_commit d')), r')"
    by (cases "commit_changes H r opts treeHash d") simp
  from commit_changes_error [OF this] show False
    using nothing_to_commit_not_unmerged nothing_to_commit_not_sha nothing_to_commit_not_lock
      nothing_to_commit_not_non_commit
    by auto
qed


lemma terminalRef_HEAD_forms:
  assumes "terminalRef r ''HEAD'' = Inr t"
  shows "t = ''HEAD'' \<or> (\<exists>b. t = ''refs/heads/'' @ b)"
  using assms unfolding terminalRef_def
  by (auto split: sum.splits bool.splits option.splits)

lemma not_merge_head: "''refs/heads/'' @ b \<noteq> ''MERGE_HEAD''" "''HEAD'' \<noteq> ''MERGE_HEAD''"
  by simp_all

lemma isRef_HEAD: "isRef ''HEAD''"
  by (simp add: isRef_def)

lemma objects_writeCommit_result:
  assumes "objects_writeCommit H r treeHash m parents = (c, r2)"
  shows "version_files r2 = version_files r"
    and "objects_exists r2 c"
    and "objects_read r2 c = Some (Commit treeHash (map js_str parents) (js_str m))"
  using assms
  by (auto simp: objects_writeCommit_def objects_write_def objects_exists_def objects_read_def
      update_conv')

lemma update_ref_HEAD_commit:
  assumes "objects_exists r c" and "objects_read r c = Some (Commit t ps m)"
    and "terminalRef r ''HEAD'' = Inr tr"
  shows "update_ref r ''HEAD'' c = (Inr (), refs_write r tr c)"
  using assms isRef_HEAD
  by (simp add: update_ref_def refs_hash_def)

lemma refs_write_other:
  "q \<noteq> p \<Longrightarrow> files_read (refs_write r p c) q = files_read r q"
  by (simp add: refs_write_def files_read_write)

text \<open>
  C4: in a repository that is not bare, with HEAD resolving to a commit when the tree of
  the index has been written, \<open>commit\<close> fails with the nothing-to-commit error exactly
  when the hash of the tree written from the index is the tree hash of the HEAD commit;
  on branch master the message is the text \<^verbatim>\<open># On master\<close>, a line feed,
  \<^verbatim>\<open>nothing to commit, working directory clean\<close>. Otherwise the commit goes on: a
  merge with conflicted paths fails listing them, and outside a merge the commit object
  is written with HEAD's hash as its parent and the terminal ref of HEAD is handed the
  new hash.
\<close>

theorem commit_nothing_to_commit:
  assumes "\<not> is_bare r"
    and "write_tree H r = (treeHash, r1)"
    and "head_description r = Inr d"
    and "refs_hash r1 ''HEAD'' = Inr (Some headHash)"
    and "objects_read r1 headHash = Some (Commit headTree ps msg)"
  shows "((\<exists>d'. fst (version_commit H r opts) = Inl (Error (nothing_to_commit d'))) \<longleftrightarrow>
            treeHash = headTree) \<and>
         (treeHash = headTree \<longrightarrow>
            version_commit H r opts = (Inl (Error (nothing_to_commit d)), r1)) \<and>
         (headBranchName r = Inr (Some ''master'') \<longrightarrow>
            nothing_to_commit d =
              ''# On master'' @ [CHR 0x0A] @ ''nothing to commit, working directory clean'') \<and>
         (treeHash \<noteq> headTree \<longrightarrow>
            version_commit H r opts = commit_changes H r1 opts treeHash d) \<and>
         (treeHash \<noteq> headTree \<and> isMergeInProgress r \<and> index_conflictedPaths r \<noteq> [] \<longrightarrow>
            version_commit H r opts =
              (Inl (Error (unmerged_files (index_conflictedPaths r))), r1)) \<and>
         (\<forall>m t c r2. treeHash \<noteq> headTree \<and> \<not> isMergeInProgress r \<and> opts = Some m \<and>
            terminalRef r ''HEAD'' = Inr t \<and>
            objects_writeCommit H r1 treeHash m [Some headHash] = (c, r2) \<longrightarrow>
            version_commit H r opts =
              (Inr (''['' @ d @ '' '' @ c @ ''] '' @ js_str m), refs_write r2 t c))"
proof -
  from assms(2) have r1: "r1 = snd (write_tree H r)" and th: "treeHash = fst (write_tree H r)"
    by simp_all
  have vf: "version_files r1 = version_files r"
    unfolding r1 by (rule write_tree_files)
  have ix: "index_entries r1 = index_entries r"
    unfolding r1 by (rule write_tree_index)
  have hd1: "head_description r1 = Inr d"
    using assms(3) unfolding head_description_def
      isHeadDetached_cong [OF vf] headBranchName_cong [OF vf] .
  have mip: "isMergeInProgress r1 = isMergeInProgress r"
    by (rule isMergeInProgress_cong [OF vf])
  have cp: "index_conflictedPaths r1 = index_conflictedPaths r"
    by (simp add: index_conflictedPaths_def ix)
  have eq: "treeHash = headTree \<Longrightarrow>
      version_commit H r opts = (Inl (Error (nothing_to_commit d)), r1)"
    using assms(1,2,4,5) hd1 by (simp add: version_commit_def)
  have ne: "treeHash \<noteq> headTree \<Longrightarrow>
      version_commit H r opts = commit_changes H r1 opts treeHash d"
    using assms(1,2,4,5) hd1 by (simp add: version_commit_def)
  have iff: "(\<exists>d'. fst (version_commit H r opts) = Inl (Error (nothing_to_commit d'))) \<longleftrightarrow>
      treeHash = headTree"
  proof (cases "treeHash = headTree")
    case True
    with eq show ?thesis by auto
  next
    case False
    with ne commit_changes_not_nothing_to_commit [of H r1 opts treeHash d] show ?thesis
      by simp
  qed
  have master: "headBranchName r = Inr (Some ''master'') \<Longrightarrow>
      nothing_to_commit d =
        ''# On master'' @ [CHR 0x0A] @ ''nothing to commit, working directory clean''"
  proof -
    assume b: "headBranchName r = Inr (Some ''master'')"
    then have "isHeadDetached r = Inr False"
      by (auto simp: headBranchName_def split: sum.splits bool.splits option.splits)
    with b assms(3) have "d = ''master''"
      by (simp add: head_description_def js_str_def)
    then show ?thesis
      by (simp add: nothing_to_commit_def)
  qed
  have unmerged: "treeHash \<noteq> headTree \<and> isMergeInProgress r \<and> index_conflictedPaths r \<noteq> [] \<Longrightarrow>
      version_commit H r opts = (Inl (Error (unmerged_files (index_conflictedPaths r))), r1)"
    using ne mip cp by (simp add: commit_changes_def)
  have proceeds: "version_commit H r opts =
              (Inr (''['' @ d @ '' '' @ c @ ''] '' @ js_str m), refs_write r2 t c)"
    if a: "treeHash \<noteq> headTree \<and> \<not> isMergeInProgress r \<and> opts = Some m \<and>
            terminalRef r ''HEAD'' = Inr t \<and>
            objects_writeCommit H r1 treeHash m [Some headHash] = (c, r2)"
    for m t c r2
  proof -
    from a have wc: "objects_writeCommit H r1 treeHash m [Some headHash] = (c, r2)"
      and t: "terminalRef r ''HEAD'' = Inr t" and nm: "\<not> isMergeInProgress r1"
      and o: "opts = Some m" and n: "treeHash \<noteq> headTree"
      using mip by simp_all
    have parents: "commitParentHashes r1 = Inr [Some headHash]"
      using nm assms(4) by (simp add: commitParentHashes_def)
    note w = objects_writeCommit_result [OF wc]
    have t2: "terminalRef r2 ''HEAD'' = Inr t"
      using t terminalRef_cong [of r2 r] w(1) vf by simp
    have up: "update_ref r2 ''HEAD'' c = (Inr (), refs_write r2 t c)"
      by (rule update_ref_HEAD_commit [OF w(2) w(3) t2])
    have "t \<noteq> ''MERGE_HEAD''"
      using terminalRef_HEAD_forms [OF t] by auto
    then have "files_read (refs_write r2 t c) ''MERGE_HEAD'' = files_read r2 ''MERGE_HEAD''"
      using refs_write_other [of "''MERGE_HEAD''" t r2 c] by simp
    also have "\<dots> = files_read r1 ''MERGE_HEAD''"
      using files_read_cong [OF w(1)] by simp
    finally have nm3: "\<not> isMergeInProgress (refs_write r2 t c)"
      using nm by (simp add: isMergeInProgress_def)
    have "commit_changes H r1 opts treeHash d =
        (Inr (''['' @ d @ '' '' @ c @ ''] '' @ js_str m), refs_write r2 t c)"
      unfolding commit_changes_def
      using nm o parents wc up nm3 by simp
    with ne [OF n] show ?thesis by simp
  qed
  from iff eq master ne unmerged proceeds show ?thesis
    by blast
qed

theorem commit_nothing_to_commit_witness:
  "version_commit demo_H demo_repo (Some (Some ''c2'')) =
     (Inl (Error (''# On master'' @ [CHR 0x0A] @ ''nothing to commit, working directory clean'')),
      snd (write_tree demo_H demo_repo)) \<and>
   fst (version_commit demo_H demo_staged (Some (Some ''c2''))) = Inr ''[master 1c2] c2'' \<and>
   refs_hash (snd (version_commit demo_H demo_staged (Some (Some ''c2'')))) ''HEAD'' =
     Inr (Some ''1c2'')"
proof -
  let ?r1 = "snd (write_tree demo_H demo_repo)"
  have h1: "\<not> is_bare demo_repo"
    "write_tree demo_H demo_repo = (''2a:3x;'', ?r1)"
    "head_description demo_repo = Inr ''master''"
    "refs_hash ?r1 ''HEAD'' = Inr (Some ''1c1'')"
    "objects_read ?r1 ''1c1'' = Some (Commit ''2a:3x;'' [] ''c1'')"
    by code_simp+
  have b1: "headBranchName demo_repo = Inr (Some ''master'')"
    by code_simp
  from commit_nothing_to_commit [OF h1, of "Some (Some ''c2'')"] b1
  have c1: "version_commit demo_H demo_repo (Some (Some ''c2'')) =
     (Inl (Error (''# On master'' @ [CHR 0x0A] @ ''nothing to commit, working directory clean'')), ?r1)"
    by metis
  let ?s1 = "snd (write_tree demo_H demo_staged)"
  let ?s2 = "snd (objects_writeCommit demo_H ?s1 ''2a:3y;'' (Some ''c2'') [Some ''1c1''])"
  have h2: "\<not> is_bare demo_staged"
    "write_tree demo_H demo_staged = (''2a:3y;'', ?s1)"
    "head_description demo_staged = Inr ''master''"
    "refs_hash ?s1 ''HEAD'' = Inr (Some ''1c1'')"
    "objects_read ?s1 ''1c1'' = Some (Commit ''2a:3x;'' [] ''c1'')"
    by code_simp+
  have p2: "''2a:3y;'' \<noteq> ''2a:3x;''" "\<not> isMergeInProgress demo_staged"
    "terminalRef demo_staged ''HEAD'' = Inr ''refs/heads/master''"
    "objects_writeCommit demo_H ?s1 ''2a:3y;'' (Some ''c2'') [Some ''1c1''] = (''1c2'', ?s2)"
    by code_simp+
  from commit_nothing_to_commit [OF h2, of "Some (Some ''c2'')"] p2
  have c2: "version_commit demo_H demo_staged (Some (Some ''c2'')) =
     (Inr (''['' @ ''master'' @ '' '' @ ''1c2'' @ ''] '' @ js_str (Some ''c2'')),
      refs_write ?s2 ''refs/heads/master'' ''1c2'')"
    by blast
  have v: "''['' @ ''master'' @ '' '' @ ''1c2'' @ ''] '' @ js_str (Some ''c2'') = ''[master 1c2] c2''"
    "refs_hash (refs_write ?s2 ''refs/heads/master'' ''1c2'') ''HEAD'' = Inr (Some ''1c2'')"
    by code_simp+
  from c1 c2 v show ?thesis
    by simp
qed

end
